theory Spec2Isabelle
  imports Main "HOL-Library.Sublist"
begin

section \<open>Python library behaviour used by pyxfoil\<close>

text \<open>
  Exceptions that can leave the modelled code. \<open>SysExit msg\<close> is \<open>sys.exit(msg)\<close>;
  \<open>IndexError\<close> is an out-of-range list read; \<open>OverflowError\<close> is raised by a float
  format of an int too large for a double; \<open>ReError\<close> is \<open>re.error\<close>; \<open>OSError\<close> is a
  failed process start. \<open>ReOutsideFragment\<close> is not a Python exception: the model of
  \<open>re.search\<close> given below covers a fragment of the pattern syntax and returns this
  marker for a pattern outside it.
\<close>

datatype error =
    SysExit string
  | IndexError
  | OverflowError
  | ReError
  | OSError
  | ReOutsideFragment

subsection \<open>Numbers and their formatting\<close>

text \<open>
  The source formats \<open>Re\<close>, \<open>Iter\<close> and the angles with \<open>str.format\<close> and tests
  \<open>Re != 0\<close>. These library operations are taken as a parameter over the number type
  \<open>'n\<close>, so that every general statement below holds for ints and floats alike:
  \<open>fmt_str\<close> is \<open>'{}'.format\<close>, \<open>fmt_2e\<close> is \<open>'{:1.2e}'.format\<close>, \<open>fmt_1f\<close> is
  \<open>'{:1.1f}'.format\<close>, \<open>fmt_2f\<close> is \<open>'{:1.2f}'.format\<close>. The three float formats can
  raise.
\<close>

record 'n pynum =
  nonzero :: "'n \<Rightarrow> bool"
  fmt_str :: "'n \<Rightarrow> string"
  fmt_2e :: "'n \<Rightarrow> error + string"
  fmt_1f :: "'n \<Rightarrow> error + string"
  fmt_2f :: "'n \<Rightarrow> error + string"

text \<open>The instance for Python's unbounded \<open>int\<close>.\<close>

definition digit_char :: "nat \<Rightarrow> char" where
  "digit_char d = ''0123456789'' ! d"

fun digits :: "nat \<Rightarrow> string" where
  "digits n = (if n < 10 then [digit_char n] else digits (n div 10) @ [digit_char (n mod 10)])"

declare digits.simps [simp del]

definition sign_str :: "int \<Rightarrow> string" where
  "sign_str i = (if i < 0 then ''-'' else [])"

definition str_int :: "int \<Rightarrow> string" where
  "str_int i = sign_str i @ digits (nat \<bar>i\<bar>)"

fun bitlen :: "nat \<Rightarrow> nat" where
  "bitlen n = (if n = 0 then 0 else Suc (bitlen (n div 2)))"

declare bitlen.simps [simp del]

text \<open>
  \<open>float(n)\<close> for a magnitude \<open>n\<close>: the nearest double (53-bit significand, ties to
  even), given by its exact integer value; \<open>None\<close> where Python raises OverflowError.
\<close>

definition to_float :: "nat \<Rightarrow> nat option" where
  "to_float m =
     (let k = bitlen m in
      if k \<le> 53 then Some m
      else
        let sh = k - 53;
            q = m div 2 ^ sh;
            r = m mod 2 ^ sh;
            half = 2 ^ (sh - 1);
            q' = (if r > half \<or> (r = half \<and> odd q) then q + 1 else q);
            v = q' * 2 ^ sh
        in if v \<ge> 2 ^ 1024 then None else Some v)"

text \<open>Fixed-point format with \<open>k\<close> decimals: a double holding an integer prints exactly.\<close>

definition int_fixed :: "nat \<Rightarrow> int \<Rightarrow> error + string" where
  "int_fixed k i =
     (case to_float (nat \<bar>i\<bar>) of
        None \<Rightarrow> Inl OverflowError
      | Some v \<Rightarrow> Inr (sign_str i @ digits v @ ''.'' @ replicate k (CHR ''0'')))"

text \<open>
  Exponent format with two decimals: three significant digits, the exact value rounded
  half to even, the exponent with a sign and at least two digits.
\<close>

definition sci_round :: "nat \<Rightarrow> nat \<times> nat" where
  "sci_round v =
     (let l = length (digits v) in
      if l \<le> 3 then (v * 10 ^ (3 - l), l - 1)
      else
        let m = v div 10 ^ (l - 3);
            r = v mod 10 ^ (l - 3);
            half = 5 * 10 ^ (l - 4);
            m' = (if r > half \<or> (r = half \<and> odd m) then m + 1 else m)
        in if m' = 1000 then (100, l) else (m', l - 1))"

definition int_sci :: "int \<Rightarrow> error + string" where
  "int_sci i =
     (case to_float (nat \<bar>i\<bar>) of
        None \<Rightarrow> Inl OverflowError
      | Some v \<Rightarrow>
          (case sci_round v of (m, e) \<Rightarrow>
             Inr (sign_str i
                  @ [digit_char (m div 100)] @ ''.''
                  @ [digit_char ((m div 10) mod 10), digit_char (m mod 10)]
                  @ ''e+'' @ (if e < 10 then ''0'' else []) @ digits e)))"

definition int_num :: "int pynum" where
  "int_num = \<lparr> nonzero = (\<lambda>i. i \<noteq> 0), fmt_str = str_int,
               fmt_2e = int_sci, fmt_1f = int_fixed 1, fmt_2f = int_fixed 2 \<rparr>"

subsection \<open>Strings and regular expressions\<close>

text \<open>\<open>s.split(c)\<close>: one more piece than there are separators, empty pieces kept.\<close>

fun str_split :: "char \<Rightarrow> string \<Rightarrow> string list" where
  "str_split c [] = [[]]"
| "str_split c (x # xs) =
     (if x = c then [] # str_split c xs
      else (case str_split c xs of p # ps \<Rightarrow> (x # p) # ps | [] \<Rightarrow> [[x]]))"

text \<open>
  \<open>re.search(pattern, string)\<close> followed by \<open>.group('value')\<close> is a library operation
  too, and the program is modelled over any such operation: it returns the text of the
  group, \<open>None\<close> when nothing matches, or the exception raised.
\<close>

type_synonym searcher = "string \<Rightarrow> string \<Rightarrow> error + string option"

text \<open>
  A model of that operation for the patterns \<open>(?<=B)(?P<value>.*?)(?=A)\<close> in which \<open>B\<close>
  and \<open>A\<close> are alternations (\<open>|\<close>) of sequences of literal characters, \<open>.\<close> (any
  character but a newline) and backslash-escaped metacharacters. A quantifier \<open>*\<close>, \<open>+\<close>
  or \<open>?\<close> in \<open>B\<close> makes \<open>re\<close> raise (nothing to repeat, or a lookbehind of variable
  width). Any other pattern is outside the fragment: for it the model returns the marker
  and says nothing about \<open>re\<close>. The general statements below hold for every searcher;
  this model is used at concrete patterns only, all of them inside the fragment.
\<close>

datatype atom = Lit char | AnyChar

definition metachar :: "char \<Rightarrow> bool" where
  "metachar c = (c \<in> set (CHR 0x5C # ''.^$*+?{}[]|()''))"

fun push :: "atom \<Rightarrow> error + atom list list \<times> string \<Rightarrow> error + atom list list \<times> string" where
  "push a (Inr (alt # alts, rest)) = Inr ((a # alt) # alts, rest)"
| "push a (Inr ([], rest)) = Inr ([[a]], rest)"
| "push a (Inl err) = Inl err"

fun new_alt :: "error + atom list list \<times> string \<Rightarrow> error + atom list list \<times> string" where
  "new_alt (Inr (alts, rest)) = Inr ([] # alts, rest)"
| "new_alt (Inl err) = Inl err"

text \<open>
  Reading an alternation up to the closing parenthesis: the alternatives and the text
  from the parenthesis on. \<open>quant\<close> is what a quantifier gives in this place, \<open>esc\<close>
  tells that the character before was a backslash.
\<close>

fun regex_alts :: "error \<Rightarrow> bool \<Rightarrow> string \<Rightarrow> error + atom list list \<times> string" where
  "regex_alts quant esc [] = (if esc then Inl ReError else Inr ([[]], []))"
| "regex_alts quant esc (c # cs) =
     (if esc then
        (if metachar c then push (Lit c) (regex_alts quant False cs) else Inl ReOutsideFragment)
      else if c = CHR '')'' then Inr ([[]], c # cs)
      else if c = CHR ''|'' then new_alt (regex_alts quant False cs)
      else if c = CHR 0x5C then regex_alts quant True cs
      else if c = CHR ''.'' then push AnyChar (regex_alts quant False cs)
      else if c \<in> set ''*+?'' then Inl quant
      else if metachar c then Inl ReOutsideFragment
      else push (Lit c) (regex_alts quant False cs))"

text \<open>A lookbehind must have one width: all its alternatives have the same length.\<close>

definition fixed_width :: "atom list list \<Rightarrow> bool" where
  "fixed_width B = list_all (\<lambda>alt. length alt = length (hd B)) B"

fun strip_prefix :: "string \<Rightarrow> string \<Rightarrow> string option" where
  "strip_prefix [] s = Some s"
| "strip_prefix (p # ps) [] = None"
| "strip_prefix (p # ps) (c # cs) = (if p = c then strip_prefix ps cs else None)"

definition compile_between :: "string \<Rightarrow> error + atom list list \<times> atom list list" where
  "compile_between pattern =
     (case strip_prefix ''(?<='' pattern of
        None \<Rightarrow> Inl ReOutsideFragment
      | Some r0 \<Rightarrow>
          (case regex_alts ReError False r0 of
             Inl err \<Rightarrow> Inl err
           | Inr (B, r1) \<Rightarrow>
               (case strip_prefix '')(?P<value>.*?)(?='' r1 of
                  None \<Rightarrow> Inl ReOutsideFragment
                | Some r2 \<Rightarrow>
                    (case regex_alts ReOutsideFragment False r2 of
                       Inl err \<Rightarrow> Inl err
                     | Inr (A, r3) \<Rightarrow>
                         if r3 \<noteq> '')'' then Inl ReOutsideFragment
                         else if \<not> fixed_width B then Inl ReError
                         else Inr (B, A)))))"

fun atom_ok :: "atom \<Rightarrow> char \<Rightarrow> bool" where
  "atom_ok (Lit d) c = (c = d)"
| "atom_ok AnyChar c = (c \<noteq> CHR 0x0A)"

text \<open>A sequence of atoms matches a prefix of the text.\<close>

fun match_here :: "atom list \<Rightarrow> string \<Rightarrow> bool" where
  "match_here [] s = True"
| "match_here (a # as) [] = False"
| "match_here (a # as) (c # cs) = (atom_ok a c \<and> match_here as cs)"

text \<open>The lookahead \<open>(?=A)\<close> at the start of the text.\<close>

definition ahead :: "atom list list \<Rightarrow> string \<Rightarrow> bool" where
  "ahead A s = list_ex (\<lambda>alt. match_here alt s) A"

text \<open>The lookbehind \<open>(?<=B)\<close> at the end of the text read so far.\<close>

definition behind :: "atom list list \<Rightarrow> string \<Rightarrow> bool" where
  "behind B pre =
     list_ex (\<lambda>alt. length alt \<le> length pre
                  \<and> match_here alt (drop (length pre - length alt) pre)) B"

text \<open>
  The non-greedy \<open>.*?\<close> followed by the lookahead: the shortest newline-free prefix of
  the text after which the lookahead holds.
\<close>

fun lazy_dots :: "atom list list \<Rightarrow> string \<Rightarrow> string option" where
  "lazy_dots A [] = (if ahead A [] then Some [] else None)"
| "lazy_dots A (c # cs) =
     (if ahead A (c # cs) then Some []
      else if c = CHR 0x0A then None
      else map_option (Cons c) (lazy_dots A cs))"

text \<open>
  The search: start positions from left to right, \<open>pre\<close> the text before the position;
  the group of the first match.
\<close>

fun search_between :: "atom list list \<Rightarrow> atom list list \<Rightarrow> string \<Rightarrow> string \<Rightarrow> string option" where
  "search_between B A pre [] = (if behind B pre then lazy_dots A [] else None)"
| "search_between B A pre (c # cs) =
     (case (if behind B pre then lazy_dots A (c # cs) else None) of
        Some v \<Rightarrow> Some v
      | None \<Rightarrow> search_between B A (pre @ [c]) cs)"

definition re_search :: searcher where
  "re_search pattern string =
     (case compile_between pattern of
        Inl err \<Rightarrow> Inl err
      | Inr (B, A) \<Rightarrow> Inr (search_between B A [] string))"

section \<open>General file and process utilities\<close>

text \<open>
  The environment the program runs in: the platform flag, the regular files (a file is
  the list of lines that iterating over it yields; a path names a file as the string it
  is), which programs can be started, and logs of the effects on the outside: directories
  passed to \<open>os.mkdir\<close>, printed text, and for every started process its path and the
  bytes written to its input. What a started process does to the files is not modelled.
\<close>

record env =
  os_nt :: bool
  files :: "string \<rightharpoonup> string list"
  can_exec :: "string \<Rightarrow> bool"
  mkdirs :: "string list"
  printed :: "string list"
  runs :: "(string \<times> string) list"

definition isfile :: "env \<Rightarrow> string \<Rightarrow> bool" where
  "isfile e p = (files e p \<noteq> None)"

definition os_remove :: "string \<Rightarrow> env \<Rightarrow> env" where
  "os_remove p e = e\<lparr>files := (files e)(p := None)\<rparr>"

text \<open>
  MakeOutputDir: \<open>os.mkdir\<close> on every prefix of the path, each ending in a slash; every
  exception of \<open>os.mkdir\<close> is swallowed.
\<close>

fun mkdir_prefixes :: "string \<Rightarrow> string list \<Rightarrow> string list" where
  "mkdir_prefixes prestring [] = []"
| "mkdir_prefixes prestring (s # ss) =
     (prestring @ s @ ''/'') # mkdir_prefixes (prestring @ s @ ''/'') ss"

definition MakeOutputDir :: "string \<Rightarrow> env \<Rightarrow> env" where
  "MakeOutputDir savedir e =
     e\<lparr>mkdirs := mkdirs e @ mkdir_prefixes [] (str_split (CHR ''/'') savedir)\<rparr>"

definition GetParentDir :: "string \<Rightarrow> string" where
  "GetParentDir savename =
     concat (map (\<lambda>s. s @ ''/'') (butlast (str_split (CHR ''/'') savename)))"

text \<open>
  FindBetween with \<open>after\<close> given, the branch the class uses. \<open>before\<close> and \<open>after\<close>
  are pasted into the pattern as they are, so they are read as regular expressions.
\<close>

definition FindBetween :: "searcher \<Rightarrow> string \<Rightarrow> string \<Rightarrow> string \<Rightarrow> error + string" where
  "FindBetween rs string before after =
     (case rs (''(?<='' @ before @ '')(?P<value>.*?)(?='' @ after @ '')'') string of
        Inl err \<Rightarrow> Inl err
      | Inr (Some v) \<Rightarrow> Inr v
      | Inr None \<Rightarrow> Inr ''No Match'')"

definition stars :: string where
  "stars = replicate 68 (CHR ''*'')"

definition ErrorMessage :: "string \<Rightarrow> string" where
  "ErrorMessage text =
     [CHR 0x0A, CHR 0x0A] @ stars @ [CHR 0x0A] @ text @ [CHR 0x0A] @ stars @ [CHR 0x0A, CHR 0x0A]"

section \<open>The Xfoil class\<close>

text \<open>
  The attributes of an \<open>Xfoil\<close> object. \<open>input\<close> is the command list, one string with
  a newline after every command. \<open>alfs\<close> is set by \<open>Polar\<close> only, \<open>xf\<close> by \<open>RunXfoil\<close>
  only: it is the handle of the process started last, given by the position of that
  process in the log \<open>runs\<close> of the environment.
\<close>

record 'n xfoil =
  win :: bool
  xfoilpath :: string
  Re :: 'n
  Iter :: 'n
  naca :: bool
  name :: string
  savepath :: string
  input :: string
  foil :: string
  alfs :: "'n list option"
  xf :: "nat option"

text \<open>The \<open>alfs\<close> argument: a bare number (\<open>type(alfs) == float or int\<close>) or a list.\<close>

datatype 'n alfs_arg = Scalar 'n | Seq "'n list"

fun as_list :: "'n alfs_arg \<Rightarrow> 'n list" where
  "as_list (Scalar a) = [a]"
| "as_list (Seq l) = l"

definition AddInput :: "string \<Rightarrow> 'n xfoil \<Rightarrow> 'n xfoil" where
  "AddInput cmd x = x\<lparr>input := input x @ cmd @ [CHR 0x0A]\<rparr>"

text \<open>
  A method that can raise returns the exception, if any, with the object and the
  environment as they are when it is raised.
\<close>

definition RunXfoil :: "bool \<Rightarrow> 'n xfoil \<times> env \<Rightarrow> error option \<times> 'n xfoil \<times> env" where
  "RunXfoil quiet = (\<lambda>(x, e).
     if \<not> can_exec e (xfoilpath x) then (Some OSError, x, e)
     else
       let e1 = e\<lparr>runs := runs e @ [(xfoilpath x, input x)]\<rparr>
       in (None, x\<lparr>xf := Some (length (runs e))\<rparr>,
           if \<not> quiet then e1\<lparr>printed := printed e1 @ [[CHR 0x0A, CHR 0x0A, CHR 0x0A]]\<rparr>
           else e1))"

definition LoadGeom :: "'n xfoil \<times> env \<Rightarrow> error option \<times> 'n xfoil \<times> env" where
  "LoadGeom = (\<lambda>(x, e).
     if naca x then (None, AddInput (''naca '' @ foil x) x, e)
     else
       (case files e (foil x) of
          None \<Rightarrow>
            (Some (SysExit (ErrorMessage
               (''PYXFOIL ERROR: Geometry input file does not exist/in wrong location''
                @ [CHR 0x0A] @ ''('' @ foil x @ '')''))), x, e)
        | Some lines \<Rightarrow>
            if length lines < 2 then
              (Some (SysExit (ErrorMessage
                 (''PYXFOIL ERROR: Geometry input file is empty (no data)''
                  @ [CHR 0x0A] @ ''Download or create new file: ('' @ foil x @ '')''))), x, e)
            else (None, AddInput (''load '' @ foil x) x, e)))"

definition SaveNameGeom :: "'n xfoil \<Rightarrow> string" where
  "SaveNameGeom x = savepath x @ ''/'' @ name x @ ''.dat''"

definition SaveNameSurfCp :: "'n pynum \<Rightarrow> 'n xfoil \<Rightarrow> 'n \<Rightarrow> error + string" where
  "SaveNameSurfCp fm x alf =
     (case fmt_2e fm (Re x) of
        Inl err \<Rightarrow> Inl err
      | Inr r \<Rightarrow>
          (case fmt_1f fm alf of
             Inl err \<Rightarrow> Inl err
           | Inr a \<Rightarrow> Inr (savepath x @ ''/'' @ name x @ ''_surfCP_Re'' @ r @ ''a'' @ a @ ''.dat'')))"

text \<open>
  \<open>alfrange\<close> of SaveNamePolar: \<open>alfs[0]\<close> alone when the length is 1, else \<open>alfs[0]\<close>
  and \<open>alfs[-1]\<close>; on an empty list \<open>alfs[0]\<close> raises IndexError.
\<close>

definition alfrange :: "'n pynum \<Rightarrow> 'n list \<Rightarrow> error + string" where
  "alfrange fm l =
     (if length l = 1 then
        (case fmt_2f fm (hd l) of Inl err \<Rightarrow> Inl err | Inr a \<Rightarrow> Inr (''a'' @ a))
      else
        (case l of
           [] \<Rightarrow> Inl IndexError
         | a0 # _ \<Rightarrow>
             (case fmt_1f fm a0 of
                Inl err \<Rightarrow> Inl err
              | Inr lo \<Rightarrow>
                  (case fmt_1f fm (last l) of
                     Inl err \<Rightarrow> Inl err
                   | Inr hi \<Rightarrow> Inr (''a'' @ lo @ ''-'' @ hi)))))"

definition SaveNamePolar :: "'n pynum \<Rightarrow> 'n xfoil \<Rightarrow> 'n alfs_arg \<Rightarrow> error + string" where
  "SaveNamePolar fm x arg =
     (case alfrange fm (as_list arg) of
        Inl err \<Rightarrow> Inl err
      | Inr rng \<Rightarrow>
          (case fmt_2e fm (Re x) of
             Inl err \<Rightarrow> Inl err
           | Inr r \<Rightarrow> Inr (savepath x @ ''/'' @ name x @ ''_polar_Re'' @ r @ rng @ ''.dat'')))"

definition SaveGeom :: "bool \<Rightarrow> 'n xfoil \<times> env \<Rightarrow> 'n xfoil \<times> env" where
  "SaveGeom overwrite = (\<lambda>(x, e).
     let savename = SaveNameGeom x
     in if \<not> isfile e savename \<and> overwrite then (AddInput (''save '' @ savename) x, e)
        else (x, e))"

definition EnterOperMenu :: "'n pynum \<Rightarrow> 'n xfoil \<Rightarrow> 'n xfoil" where
  "EnterOperMenu fm x =
     (let x1 = AddInput ''oper'' x;
          x2 = (if nonzero fm (Re x1) then AddInput (''visc '' @ fmt_str fm (Re x1)) x1 else x1)
      in AddInput (''iter '' @ fmt_str fm (Iter x2)) x2)"

definition SingleAlfa :: "'n pynum \<Rightarrow> 'n \<Rightarrow> bool \<Rightarrow> 'n xfoil \<Rightarrow> error option \<times> 'n xfoil" where
  "SingleAlfa fm alf SaveCP x =
     (let x1 = AddInput (''alfa '' @ fmt_str fm alf) x
      in if SaveCP then
           (case SaveNameSurfCp fm x1 alf of
              Inl err \<Rightarrow> (Some err, x1)
            | Inr savename \<Rightarrow> (None, AddInput (''cpwr '' @ savename) x1))
         else (None, x1))"

text \<open>The loop \<open>for alf in alfs: self.SingleAlfa(alf, SaveCP)\<close>.\<close>

fun each_alfa :: "'n pynum \<Rightarrow> bool \<Rightarrow> 'n list \<Rightarrow> 'n xfoil \<Rightarrow> error option \<times> 'n xfoil" where
  "each_alfa fm SaveCP [] x = (None, x)"
| "each_alfa fm SaveCP (alf # rest) x =
     (case SingleAlfa fm alf SaveCP x of
        (Some err, x1) \<Rightarrow> (Some err, x1)
      | (None, x1) \<Rightarrow> each_alfa fm SaveCP rest x1)"

text \<open>
  Polar, in the two parts its comments name. The first stores the run info, enters the
  oper menu, resolves the polar file name and removes the file when overwriting; it
  ends just before \<open>self.AddInput('pacc')\<close>.
\<close>

definition Polar_setup ::
  "'n pynum \<Rightarrow> 'n alfs_arg \<Rightarrow> bool \<Rightarrow> 'n xfoil \<times> env
     \<Rightarrow> (error \<times> 'n xfoil \<times> env) + (string \<times> 'n xfoil \<times> env)" where
  "Polar_setup fm arg overwrite = (\<lambda>(x, e).
     let l = as_list arg;
         x1 = x\<lparr>alfs := Some l\<rparr>;
         x2 = EnterOperMenu fm x1
     in (case SaveNamePolar fm x2 (Seq l) of
           Inl err \<Rightarrow> Inl (err, x2, e)
         | Inr savename \<Rightarrow>
             Inr (savename, x2,
                  if isfile e savename \<and> overwrite then os_remove savename e else e)))"

text \<open>The second part: accumulation on, the file name, no dump file, the angles, accumulation off.\<close>

definition Polar_accumulate ::
  "'n pynum \<Rightarrow> 'n list \<Rightarrow> bool \<Rightarrow> string \<Rightarrow> 'n xfoil \<times> env \<Rightarrow> error option \<times> 'n xfoil \<times> env" where
  "Polar_accumulate fm l SaveCP savename = (\<lambda>(x, e).
     let x1 = AddInput ''pacc'' x;
         x2 = AddInput savename x1;
         x3 = AddInput [] x2
     in (case each_alfa fm SaveCP l x3 of
           (Some err, x4) \<Rightarrow> (Some err, x4, e)
         | (None, x4) \<Rightarrow> (None, AddInput ''pacc'' x4, e)))"

definition Polar ::
  "'n pynum \<Rightarrow> 'n alfs_arg \<Rightarrow> bool \<Rightarrow> bool \<Rightarrow> 'n xfoil \<times> env \<Rightarrow> error option \<times> 'n xfoil \<times> env" where
  "Polar fm arg SaveCP overwrite s =
     (case Polar_setup fm arg overwrite s of
        Inl (err, x, e) \<Rightarrow> (Some err, x, e)
      | Inr (savename, x, e) \<Rightarrow> Polar_accumulate fm (as_list arg) SaveCP savename (x, e))"

definition Quit :: "'n xfoil \<Rightarrow> 'n xfoil" where
  "Quit x = AddInput ''quit'' (AddInput [] (AddInput [] (AddInput [] (AddInput [] x))))"

definition TurnOffGraphics :: "'n xfoil \<Rightarrow> 'n xfoil" where
  "TurnOffGraphics x = AddInput [] (AddInput ''g f'' (AddInput ''plop'' x))"

text \<open>
  The first part of \<open>__init__\<close>: the path to the executable and its dependency checks.
\<close>

definition mac_xfoil :: string where
  "mac_xfoil = ''/Applications/Xfoil.app/Contents/Resources/xfoil''"

definition find_xfoil :: "string option \<Rightarrow> env \<Rightarrow> error + (string \<times> env)" where
  "find_xfoil given e =
     (case given of
        Some p \<Rightarrow> Inr (p, e)
      | None \<Rightarrow>
          if os_nt e then
            (if \<not> isfile e ''xfoil.exe'' then
               Inl (SysExit (ErrorMessage
                 ''PYXFOIL ERROR: Put xfoil.exe in same folder as pyxfoil.py''))
             else Inr (''xfoil.exe'', e))
          else
            (if \<not> isfile e mac_xfoil then
               Inl (SysExit (ErrorMessage ''PYXFOIL ERROR: Xfoil.app is not installed''))
             else
               Inr (mac_xfoil,
                    if \<not> isfile e ''/opt/X11/bin/xquartz'' then
                      e\<lparr>printed := printed e
                           @ [ErrorMessage ''PYXFOIL ERROR: X11/xquartz not installed'']\<rparr>
                    else e)))"

definition airfoil_name :: "searcher \<Rightarrow> string \<Rightarrow> bool \<Rightarrow> error + string" where
  "airfoil_name rs foil_arg naca_arg =
     (if naca_arg then Inr (''naca'' @ foil_arg)
      else FindBetween rs foil_arg (GetParentDir foil_arg) [CHR 0x5C, CHR ''.''])"

text \<open>
  \<open>__init__\<close>. When it raises, no object exists: the result is then the exception, the
  command list as it is at that moment (empty before it is created) and the environment.
\<close>

definition Xfoil_init ::
  "searcher \<Rightarrow> 'n pynum \<Rightarrow> string \<Rightarrow> bool \<Rightarrow> 'n \<Rightarrow> 'n \<Rightarrow> string option \<Rightarrow> bool \<Rightarrow> env
     \<Rightarrow> (error \<times> string \<times> env) + ('n xfoil \<times> env)" where
  "Xfoil_init rs fm foil_arg naca_arg Re_arg Iter_arg given headless e =
     (case find_xfoil given e of
        Inl err \<Rightarrow> Inl (err, [], e)
      | Inr (path, e1) \<Rightarrow>
          (case airfoil_name rs foil_arg naca_arg of
             Inl err \<Rightarrow> Inl (err, [], e1)
           | Inr nm \<Rightarrow>
               let e2 = MakeOutputDir (''Data/'' @ nm) e1;
                   x0 = \<lparr> win = os_nt e, xfoilpath = path, Re = Re_arg, Iter = Iter_arg,
                          naca = naca_arg, name = nm, savepath = ''Data/'' @ nm, input = [],
                          foil = foil_arg,
                          alfs = None, xf = None \<rparr>;
                   x1 = (if headless then TurnOffGraphics x0 else x0)
               in (case LoadGeom (x1, e2) of
                     (Some err, x2, e3) \<Rightarrow> Inl (err, input x2, e3)
                   | (None, x2, e3) \<Rightarrow> Inr (x2, e3))))"

section \<open>Sequences of method calls\<close>

text \<open>A caller's script: the public methods of the class, called one after another.\<close>

datatype 'n op =
    Call_AddInput string
  | Call_RunXfoil bool
  | Call_LoadGeom
  | Call_SaveGeom bool
  | Call_EnterOperMenu
  | Call_SingleAlfa 'n bool
  | Call_Polar "'n alfs_arg" bool bool
  | Call_Quit
  | Call_TurnOffGraphics

fun call :: "'n pynum \<Rightarrow> 'n op \<Rightarrow> 'n xfoil \<times> env \<Rightarrow> error option \<times> 'n xfoil \<times> env" where
  "call fm (Call_AddInput cmd) (x, e) = (None, AddInput cmd x, e)"
| "call fm (Call_RunXfoil quiet) (x, e) = RunXfoil quiet (x, e)"
| "call fm Call_LoadGeom (x, e) = LoadGeom (x, e)"
| "call fm (Call_SaveGeom overwrite) (x, e) = (None, SaveGeom overwrite (x, e))"
| "call fm Call_EnterOperMenu (x, e) = (None, EnterOperMenu fm x, e)"
| "call fm (Call_SingleAlfa alf SaveCP) (x, e) =
     (case SingleAlfa fm alf SaveCP x of (r, x1) \<Rightarrow> (r, x1, e))"
| "call fm (Call_Polar arg SaveCP overwrite) (x, e) = Polar fm arg SaveCP overwrite (x, e)"
| "call fm Call_Quit (x, e) = (None, Quit x, e)"
| "call fm Call_TurnOffGraphics (x, e) = (None, TurnOffGraphics x, e)"

text \<open>An exception ends the script.\<close>

fun calls :: "'n pynum \<Rightarrow> 'n op list \<Rightarrow> 'n xfoil \<times> env \<Rightarrow> error option \<times> 'n xfoil \<times> env" where
  "calls fm [] s = (None, s)"
| "calls fm (c # cs) s =
     (case call fm c s of
        (Some err, s1) \<Rightarrow> (Some err, s1)
      | (None, s1) \<Rightarrow> calls fm cs s1)"

text \<open>
  A whole session: the constructor's result, then the calls. The outcome is the
  exception if any, the command list and the environment.
\<close>

definition after_calls ::
  "'n pynum \<Rightarrow> 'n op list \<Rightarrow> (error \<times> string \<times> env) + ('n xfoil \<times> env)
     \<Rightarrow> error option \<times> string \<times> env" where
  "after_calls fm cs r =
     (case r of
        Inl (err, buf, e) \<Rightarrow> (Some err, buf, e)
      | Inr s \<Rightarrow> (case calls fm cs s of (res, x, e) \<Rightarrow> (res, input x, e)))"

text \<open>The text of a list of commands: each followed by a newline, as AddInput writes it.\<close>

definition script :: "string list \<Rightarrow> string" where
  "script cmds = concat (map (\<lambda>cmd. cmd @ [CHR 0x0A]) cmds)"

subsection \<open>Concrete hosts\<close>

text \<open>A Mac on which Xfoil.app and XQuartz are installed and no data file exists yet.\<close>

definition mac_host :: env where
  "mac_host =
     \<lparr> os_nt = False,
       files = [mac_xfoil \<mapsto> [], ''/opt/X11/bin/xquartz'' \<mapsto> []],
       can_exec = (\<lambda>p. p = mac_xfoil),
       mkdirs = [], printed = [], runs = [] \<rparr>"

text \<open>The same host with further files on it.\<close>

definition with_file :: "string \<Rightarrow> string list \<Rightarrow> env \<Rightarrow> env" where
  "with_file p ls e = e\<lparr>files := (files e)(p \<mapsto> ls)\<rparr>"

text \<open>The object that \<open>Xfoil('0012', Re=0, Iter=100)\<close> builds on that host.\<close>

definition naca0012 :: "int xfoil" where
  "naca0012 =
     \<lparr> win = False, xfoilpath = mac_xfoil, Re = 0, Iter = 100, naca = True,
       name = ''naca0012'', savepath = ''Data/naca0012'',
       input = script [''plop'', ''g f'', [], ''naca 0012''], foil = ''0012'', alfs = None,
       xf = None \<rparr>"

subsection \<open>The surface-pressure path as the specification words it\<close>

text \<open>
  The specification gives the surface-pressure path with an underscore between the
  Reynolds field and the angle field. This second definition follows those words; it is
  compared with SaveNameSurfCp below.
\<close>

definition SurfacePressurePath_spec :: "'n pynum \<Rightarrow> 'n xfoil \<Rightarrow> 'n \<Rightarrow> error + string" where
  "SurfacePressurePath_spec fm x alf =
     (case fmt_2e fm (Re x) of
        Inl err \<Rightarrow> Inl err
      | Inr r \<Rightarrow>
          (case fmt_1f fm alf of
             Inl err \<Rightarrow> Inl err
           | Inr a \<Rightarrow> Inr (savepath x @ ''/'' @ name x @ ''_surfCP_Re'' @ r @ ''_a'' @ a @ ''.dat'')))"

section \<open>Evaluating the library model\<close>

lemma replicate_2: "replicate 2 c = [c, c]"
  by (simp add: numeral_2_eq_2)

lemma int_num_0:
  "nonzero int_num 0 = False" "fmt_str int_num 0 = ''0''" "fmt_2e int_num 0 = Inr ''0.00e+00''"
  "fmt_1f int_num 0 = Inr ''0.0''" "fmt_2f int_num 0 = Inr ''0.00''"
  by (simp_all add: int_num_def int_sci_def int_fixed_def str_int_def to_float_def bitlen.simps
      sci_round_def digits.simps digit_char_def sign_str_def replicate_2)

lemma int_num_10:
  "nonzero int_num 10 = True" "fmt_str int_num 10 = ''10''" "fmt_2e int_num 10 = Inr ''1.00e+01''"
  "fmt_1f int_num 10 = Inr ''10.0''" "fmt_2f int_num 10 = Inr ''10.00''"
  by (simp_all add: int_num_def int_sci_def int_fixed_def str_int_def to_float_def bitlen.simps
      sci_round_def digits.simps digit_char_def sign_str_def replicate_2)

lemma int_num_100: "fmt_str int_num 100 = ''100''"
  by (simp add: int_num_def str_int_def digits.simps digit_char_def sign_str_def)


lemma airfoil_name_no_extension: "airfoil_name re_search ''Data/s1223'' False = Inr ''No Match''"
  by (simp add: airfoil_name_def GetParentDir_def FindBetween_def re_search_def
      compile_between_def metachar_def fixed_width_def behind_def ahead_def)

lemma airfoil_name_bar: "airfoil_name re_search ''ab|./d'' False = Inr ''|''"
  by (simp add: airfoil_name_def GetParentDir_def FindBetween_def re_search_def
      compile_between_def metachar_def fixed_width_def behind_def ahead_def)


lemma airfoil_name_quantifier: "airfoil_name re_search ''C++/x.dat'' False = Inl ReError"
  by (simp add: airfoil_name_def GetParentDir_def FindBetween_def re_search_def
      compile_between_def metachar_def)

section \<open>The environment\<close>

lemma find_xfoil_files: "find_xfoil given e = Inr (path, e1) \<Longrightarrow> files e1 = files e"
  by (auto simp add: find_xfoil_def split: option.splits if_splits)

lemma find_xfoil_mac: "find_xfoil None mac_host = Inr (mac_xfoil, mac_host)"
  by (simp add: find_xfoil_def mac_host_def isfile_def mac_xfoil_def)

lemma find_xfoil_with_file:
  "p \<noteq> mac_xfoil \<Longrightarrow> p \<noteq> ''/opt/X11/bin/xquartz'' \<Longrightarrow>
   find_xfoil None (with_file p ls mac_host) = Inr (mac_xfoil, with_file p ls mac_host)"
  by (simp add: find_xfoil_def mac_host_def isfile_def with_file_def)

lemma MakeOutputDir_files: "files (MakeOutputDir d e) = files e"
  by (simp add: MakeOutputDir_def)

lemma isfile_os_remove: "\<not> isfile (os_remove p e) p"
  by (simp add: isfile_def os_remove_def)

lemma isfile_with_file: "isfile (with_file p ls e) p"
  by (simp add: isfile_def with_file_def)

section \<open>The command list\<close>

lemma AddInput_script: "AddInput cmd x = x\<lparr>input := input x @ script [cmd]\<rparr>"
  by (simp add: AddInput_def script_def)

lemma script_join:
  "script a @ script b = script (a @ b)"
  "script a @ script b @ rest = script (a @ b) @ rest"
  by (simp_all add: script_def)

lemma TurnOffGraphics_script:
  "TurnOffGraphics x = x\<lparr>input := input x @ script [''plop'', ''g f'', []]\<rparr>"
  by (simp add: TurnOffGraphics_def AddInput_def script_def)

lemma Quit_script: "Quit x = x\<lparr>input := input x @ script [[], [], [], [], ''quit'']\<rparr>"
  by (simp add: Quit_def AddInput_def script_def)

lemma EnterOperMenu_script:
  "EnterOperMenu fm x =
     x\<lparr>input := input x @ script ([''oper'']
            @ (if nonzero fm (Re x) then [''visc '' @ fmt_str fm (Re x)] else [])
            @ [''iter '' @ fmt_str fm (Iter x)])\<rparr>"
  by (simp add: EnterOperMenu_def Let_def AddInput_def script_def)

lemma SaveGeom_cases:
  "SaveGeom overwrite (x, e) =
     (if \<not> isfile e (SaveNameGeom x) \<and> overwrite
      then (AddInput (''save '' @ SaveNameGeom x) x, e) else (x, e))"
  by (simp add: SaveGeom_def Let_def)

lemma SingleAlfa_script:
  "SingleAlfa fm alf True x =
     (case SaveNameSurfCp fm x alf of
        Inl err \<Rightarrow> (Some err, x\<lparr>input := input x @ script [''alfa '' @ fmt_str fm alf]\<rparr>)
      | Inr p \<Rightarrow>
          (None, x\<lparr>input := input x @ script [''alfa '' @ fmt_str fm alf, ''cpwr '' @ p]\<rparr>))"
  by (simp add: SingleAlfa_def Let_def AddInput_script SaveNameSurfCp_def script_join
      split: sum.splits)

lemma SaveNamePolar_update:
  "SaveNamePolar fm (x\<lparr>input := b\<rparr>) arg = SaveNamePolar fm x arg"
  "SaveNamePolar fm (x\<lparr>alfs := c\<rparr>) arg = SaveNamePolar fm x arg"
  by (simp_all add: SaveNamePolar_def split: sum.splits)

lemma Polar_setup_ok:
  "SaveNamePolar fm x (Seq (as_list arg)) = Inr p \<Longrightarrow>
   Polar_setup fm arg overwrite (x, e) =
     Inr (p, EnterOperMenu fm (x\<lparr>alfs := Some (as_list arg)\<rparr>),
          if isfile e p \<and> overwrite then os_remove p e else e)"
  by (simp add: Polar_setup_def Let_def EnterOperMenu_script SaveNamePolar_update)

lemma Polar_setup_Inl:
  "Polar_setup fm arg overwrite (x, e) = Inl (err, x1, e1) \<Longrightarrow>
   x1 = EnterOperMenu fm (x\<lparr>alfs := Some (as_list arg)\<rparr>) \<and> e1 = e"
  by (auto simp add: Polar_setup_def Let_def split: sum.splits)

lemma Polar_setup_Inr:
  "Polar_setup fm arg overwrite (x, e) = Inr (p, x1, e1) \<Longrightarrow>
   x1 = EnterOperMenu fm (x\<lparr>alfs := Some (as_list arg)\<rparr>)
   \<and> e1 = (if isfile e p \<and> overwrite then os_remove p e else e)"
  by (auto simp add: Polar_setup_def Let_def split: sum.splits)

lemma Polar_accumulate_env: "snd (snd (Polar_accumulate fm l SaveCP p (x, e))) = e"
  by (simp add: Polar_accumulate_def Let_def split: prod.splits option.splits)

subsection \<open>Every method only appends\<close>

lemma prefix_AddInput: "prefix b (input x) \<Longrightarrow> prefix b (input (AddInput cmd x))"
  by (simp add: AddInput_def prefix_def) auto

lemma prefix_LoadGeom: "prefix (input x) (input (fst (snd (LoadGeom (x, e)))))"
  by (simp add: LoadGeom_def prefix_AddInput split: option.splits)

lemma prefix_SaveGeom: "prefix (input x) (input (fst (SaveGeom overwrite (x, e))))"
  by (simp add: SaveGeom_def Let_def prefix_AddInput)

lemma prefix_EnterOperMenu: "prefix b (input x) \<Longrightarrow> prefix b (input (EnterOperMenu fm x))"
  by (simp add: EnterOperMenu_def Let_def prefix_AddInput)

lemma prefix_SingleAlfa:
  "prefix b (input x) \<Longrightarrow> prefix b (input (snd (SingleAlfa fm alf SaveCP x)))"
  by (simp add: SingleAlfa_def Let_def prefix_AddInput split: sum.splits)

lemma prefix_each_alfa:
  "prefix b (input x) \<Longrightarrow> prefix b (input (snd (each_alfa fm SaveCP l x)))"
proof (induction l arbitrary: x)
  case Nil
  then show ?case by simp
next
  case (Cons alf rest)
  obtain r x1 where s: "SingleAlfa fm alf SaveCP x = (r, x1)"
    by (cases "SingleAlfa fm alf SaveCP x")
  from Cons.prems have p: "prefix b (input x1)"
    using prefix_SingleAlfa [of b x fm alf SaveCP] s by simp
  show ?case
  proof (cases r)
    case None
    with s p Cons.IH [of x1] show ?thesis by simp
  next
    case (Some err)
    with s p show ?thesis by simp
  qed
qed

lemma prefix_Polar_accumulate:
  assumes b: "prefix b (input x)"
  shows "prefix b (input (fst (snd (Polar_accumulate fm l SaveCP savename (x, e)))))"
proof -
  let ?x3 = "AddInput [] (AddInput savename (AddInput ''pacc'' x))"
  obtain r x4 where s: "each_alfa fm SaveCP l ?x3 = (r, x4)"
    by (cases "each_alfa fm SaveCP l ?x3")
  have "prefix b (input ?x3)" using b by (simp add: prefix_AddInput)
  then have "prefix b (input x4)"
    using prefix_each_alfa [of b ?x3 fm SaveCP l] s by simp
  then show ?thesis
    using s by (cases r) (simp_all add: Polar_accumulate_def Let_def prefix_AddInput)
qed

lemma Polar_accumulate_starts:
  "prefix (input x @ script [''pacc'', savename, []])
          (input (fst (snd (Polar_accumulate fm l SaveCP savename (x, e)))))"
proof -
  let ?x3 = "AddInput [] (AddInput savename (AddInput ''pacc'' x))"
  obtain r x4 where s: "each_alfa fm SaveCP l ?x3 = (r, x4)"
    by (cases "each_alfa fm SaveCP l ?x3")
  have i: "input ?x3 = input x @ script [''pacc'', savename, []]"
    by (simp add: AddInput_def script_def)
  have "prefix (input ?x3) (input x4)"
    using prefix_each_alfa [of "input ?x3" ?x3 fm SaveCP l] s by simp
  then show ?thesis
    using s unfolding i [symmetric]
    by (cases r) (simp_all add: Polar_accumulate_def Let_def prefix_AddInput)
qed

lemma prefix_Polar: "prefix (input x) (input (fst (snd (Polar fm arg SaveCP overwrite (x, e)))))"
proof (cases "Polar_setup fm arg overwrite (x, e)")
  case (Inl a)
  obtain err x1 e1 where a: "a = (err, x1, e1)" by (cases a)
  have "prefix (input x) (input (EnterOperMenu fm (x\<lparr>alfs := Some (as_list arg)\<rparr>)))"
    by (rule prefix_EnterOperMenu) simp
  with Inl a Polar_setup_Inl [of fm arg overwrite x e err x1 e1] show ?thesis
    by (simp add: Polar_def)
next
  case (Inr b)
  obtain p x1 e1 where b: "b = (p, x1, e1)" by (cases b)
  have "prefix (input x) (input (EnterOperMenu fm (x\<lparr>alfs := Some (as_list arg)\<rparr>)))"
    by (rule prefix_EnterOperMenu) simp
  with Inr b Polar_setup_Inr [of fm arg overwrite x e p x1 e1] show ?thesis
    by (simp add: Polar_def prefix_Polar_accumulate)
qed

lemma prefix_call: "prefix (input x) (input (fst (snd (call fm c (x, e)))))"
proof (cases c)
  case (Call_AddInput cmd)
  then show ?thesis by (simp add: prefix_AddInput)
next
  case (Call_RunXfoil quiet)
  then show ?thesis by (simp add: RunXfoil_def Let_def)
next
  case Call_LoadGeom
  then show ?thesis by (simp add: prefix_LoadGeom)
next
  case (Call_SaveGeom overwrite)
  then show ?thesis by (simp add: prefix_SaveGeom)
next
  case Call_EnterOperMenu
  then show ?thesis by (simp add: prefix_EnterOperMenu)
next
  case (Call_SingleAlfa alf SaveCP)
  then show ?thesis
    using prefix_SingleAlfa [of "input x" x fm alf SaveCP]
    by (auto split: prod.splits)
next
  case (Call_Polar arg SaveCP overwrite)
  then show ?thesis by (simp add: prefix_Polar)
next
  case Call_Quit
  then show ?thesis by (simp add: Quit_def prefix_AddInput)
next
  case Call_TurnOffGraphics
  then show ?thesis by (simp add: TurnOffGraphics_def prefix_AddInput)
qed

lemma prefix_calls: "prefix (input x) (input (fst (snd (calls fm cs (x, e)))))"
proof (induction cs arbitrary: x e)
  case Nil
  then show ?case by simp
next
  case (Cons c cs)
  obtain r x1 e1 where s: "call fm c (x, e) = (r, x1, e1)"
    by (cases "call fm c (x, e)")
  have p: "prefix (input x) (input x1)"
    using prefix_call [of x fm c e] s by simp
  show ?case
  proof (cases r)
    case None
    have "prefix (input x1) (input (fst (snd (calls fm cs (x1, e1)))))"
      by (rule Cons.IH)
    with p None s show ?thesis by (auto intro: prefix_order.trans)
  next
    case (Some err)
    with p s show ?thesis by simp
  qed
qed

text \<open>
  C9. Every builder operation (LoadGeom, SaveGeom, EnterOperMenu, SingleAlfa, Polar,
  Quit, TurnOffGraphics, and AddInput and RunXfoil as well) only appends: whatever the
  object and the environment, and whether or not the call raises, the command list
  before the call is a prefix of the command list after it.
\<close>

theorem call_appends: "prefix (input x) (input (fst (snd (call fm c (x, e)))))"
  by (rule prefix_call)

text \<open>
  C6. EnterOperMenu appends \<open>oper\<close> first and \<open>iter N\<close> last, and between them one
  \<open>visc Re\<close> command when \<open>Re != 0\<close> and none when \<open>Re\<close> is zero; nothing else is
  appended and the commands already in the list stay.
\<close>

theorem EnterOperMenu_commands:
  "input (EnterOperMenu fm x) =
     input x @ script ([''oper'']
                       @ (if nonzero fm (Re x) then [''visc '' @ fmt_str fm (Re x)] else [])
                       @ [''iter '' @ fmt_str fm (Iter x)])"
proof (cases "nonzero fm (Re x)")
  case True
  then show ?thesis
    by (simp add: EnterOperMenu_def Let_def AddInput_def script_def)
next
  case False
  then show ?thesis
    by (simp add: EnterOperMenu_def Let_def AddInput_def script_def)
qed

section \<open>The constructor\<close>



lemma Xfoil_init_naca:
  assumes "find_xfoil given e = Inr (path, e1)"
  shows "Xfoil_init rs fm f True re it given headless e =
     Inr (\<lparr> win = os_nt e, xfoilpath = path, Re = re, Iter = it, naca = True,
            name = ''naca'' @ f, savepath = ''Data/naca'' @ f,
            input = script ((if headless then [''plop'', ''g f'', []] else []) @ [''naca '' @ f]),
            foil = f, alfs = None, xf = None \<rparr>,
          MakeOutputDir (''Data/naca'' @ f) e1)"
  using assms
  by (simp add: Xfoil_init_def airfoil_name_def LoadGeom_def Let_def TurnOffGraphics_script
      AddInput_script script_join)

lemma Xfoil_init_file:
  assumes "find_xfoil given e = Inr (path, e1)" and "airfoil_name rs f False = Inr nm"
  shows "Xfoil_init rs fm f False re it given headless e =
     (case files e f of
        None \<Rightarrow>
          Inl (SysExit (ErrorMessage
                 (''PYXFOIL ERROR: Geometry input file does not exist/in wrong location''
                  @ [CHR 0x0A] @ ''('' @ f @ '')'')),
               script (if headless then [''plop'', ''g f'', []] else []),
               MakeOutputDir (''Data/'' @ nm) e1)
      | Some lines \<Rightarrow>
          if length lines < 2 then
            Inl (SysExit (ErrorMessage
                   (''PYXFOIL ERROR: Geometry input file is empty (no data)''
                    @ [CHR 0x0A] @ ''Download or create new file: ('' @ f @ '')'')),
                 script (if headless then [''plop'', ''g f'', []] else []),
                 MakeOutputDir (''Data/'' @ nm) e1)
          else
            Inr (\<lparr> win = os_nt e, xfoilpath = path, Re = re, Iter = it, naca = False,
                   name = nm, savepath = ''Data/'' @ nm,
                   input = script ((if headless then [''plop'', ''g f'', []] else [])
                                   @ [''load '' @ f]),
                   foil = f, alfs = None, xf = None \<rparr>,
                 MakeOutputDir (''Data/'' @ nm) e1))"
  using assms find_xfoil_files [OF assms(1)]
  by (simp add: Xfoil_init_def LoadGeom_def Let_def TurnOffGraphics_script MakeOutputDir_files
      AddInput_script script_join script_def split: option.splits)

lemma Xfoil_init_mac:
  "find_xfoil None e = Inr (mac_xfoil, e) \<Longrightarrow> \<not> os_nt e \<Longrightarrow>
   Xfoil_init rs int_num ''0012'' True 0 100 None True e
     = Inr (naca0012, MakeOutputDir ''Data/naca0012'' e)"
  by (simp add: Xfoil_init_naca naca0012_def)

lemma mac_host_not_nt: "\<not> os_nt mac_host" "\<not> os_nt (with_file p ls mac_host)"
  by (simp_all add: mac_host_def with_file_def)

lemma naca0012_fields:
  "Re naca0012 = 0" "Iter naca0012 = 100" "savepath naca0012 = ''Data/naca0012''"
  "name naca0012 = ''naca0012''" "xfoilpath naca0012 = mac_xfoil"
  "input naca0012 = script [''plop'', ''g f'', [], ''naca 0012'']"
  by (simp_all add: naca0012_def)

section \<open>Saving the geometry\<close>

text \<open>
  C2. The claim: SaveGeom appends the save command if and only if overwrite is true or
  the geometry file does not exist yet. The code tests
  \<open>not os.path.isfile(savename) and overwrite\<close>: called with \<open>overwrite=True\<close> on a host
  where \<open>Data/naca0012/naca0012.dat\<close> exists, it leaves the command list as the
  constructor built it and queues no save command.
\<close>

theorem SaveGeom_overwrite_existing:
  "after_calls int_num [Call_SaveGeom True]
     (Xfoil_init re_search int_num ''0012'' True 0 100 None True
        (with_file ''Data/naca0012/naca0012.dat'' [''NACA 0012''] mac_host))
   = (None, script [''plop'', ''g f'', [], ''naca 0012''],
      MakeOutputDir ''Data/naca0012''
        (with_file ''Data/naca0012/naca0012.dat'' [''NACA 0012''] mac_host))"
proof -
  let ?e = "with_file ''Data/naca0012/naca0012.dat'' [''NACA 0012''] mac_host"
  have f: "find_xfoil None ?e = Inr (mac_xfoil, ?e)"
    by (rule find_xfoil_with_file) (simp_all add: mac_xfoil_def)
  have i: "isfile (MakeOutputDir ''Data/naca0012'' ?e) ''Data/naca0012/naca0012.dat''"
    by (simp add: isfile_def MakeOutputDir_files with_file_def)
  show ?thesis
    using i
    by (simp add: after_calls_def Xfoil_init_mac [OF f] mac_host_not_nt SaveGeom_cases
        SaveNameGeom_def naca0012_fields)
qed

section \<open>Running the command list\<close>

lemma RunXfoil_ok:
  "can_exec e (xfoilpath x) \<Longrightarrow>
   RunXfoil quiet (x, e) =
     (None, x\<lparr>xf := Some (length (runs e))\<rparr>,
      e\<lparr>runs := runs e @ [(xfoilpath x, input x)],
        printed := printed e @ (if quiet then [] else [[CHR 0x0A, CHR 0x0A, CHR 0x0A]])\<rparr>)"
  by (simp add: RunXfoil_def Let_def)

lemma can_exec_mac: "can_exec (MakeOutputDir d mac_host) mac_xfoil"
  by (simp add: MakeOutputDir_def mac_host_def)

text \<open>
  C3, as the code has it. RunXfoil does not clear the command list. A call that can
  start the executable starts a new process, writes the whole command list to it and
  stores the handle of that process on the object; a second call does the same again.
  After two calls the log of started processes holds the same command list twice, and
  the object differs from the one before only in the handle, which is that of the
  second process.
\<close>

theorem RunXfoil_twice:
  assumes "can_exec e (xfoilpath x)"
  shows "calls fm [Call_RunXfoil q1, Call_RunXfoil q2] (x, e) =
     (None, x\<lparr>xf := Some (Suc (length (runs e)))\<rparr>,
      e\<lparr>runs := runs e @ [(xfoilpath x, input x), (xfoilpath x, input x)],
        printed := printed e @ (if q1 then [] else [[CHR 0x0A, CHR 0x0A, CHR 0x0A]])
                             @ (if q2 then [] else [[CHR 0x0A, CHR 0x0A, CHR 0x0A]])\<rparr>)"
  using assms by (simp add: RunXfoil_ok)

theorem RunXfoil_twice_witness:
  "can_exec (MakeOutputDir ''Data/naca0012'' mac_host) (xfoilpath naca0012)
   \<and> runs (snd (snd (calls int_num [Call_RunXfoil True, Call_RunXfoil True]
                       (naca0012, MakeOutputDir ''Data/naca0012'' mac_host))))
       = [(mac_xfoil, script [''plop'', ''g f'', [], ''naca 0012'']),
          (mac_xfoil, script [''plop'', ''g f'', [], ''naca 0012''])]
   \<and> input (fst (snd (calls int_num [Call_RunXfoil True, Call_RunXfoil True]
                       (naca0012, MakeOutputDir ''Data/naca0012'' mac_host))))
       = input naca0012"
proof -
  have h: "can_exec (MakeOutputDir ''Data/naca0012'' mac_host) (xfoilpath naca0012)"
    by (simp add: naca0012_fields can_exec_mac)
  show ?thesis
    using h RunXfoil_twice [OF h, of int_num True True]
    by (simp add: naca0012_fields MakeOutputDir_def mac_host_def)
qed

text \<open>
  The claim itself fails on the session of the scenario: after one flush, the second
  flush starts a second process, so the log of started processes grows again.
\<close>

theorem RunXfoil_second_flush_counterexample:
  "runs (snd (snd (after_calls int_num [Call_Quit, Call_RunXfoil True, Call_RunXfoil True]
                     (Xfoil_init re_search int_num ''0012'' True 0 100 None True mac_host))))
   \<noteq> runs (snd (snd (after_calls int_num [Call_Quit, Call_RunXfoil True]
                       (Xfoil_init re_search int_num ''0012'' True 0 100 None True mac_host))))"
  by (simp add: after_calls_def Xfoil_init_mac [OF find_xfoil_mac] mac_host_not_nt
      Quit_script RunXfoil_ok can_exec_mac naca0012_fields)

section \<open>File names\<close>

text \<open>
  C5, as the code has it. SaveNameSurfCp is
  \<open><savepath>/<name>_surfCP_Re<Re as 1.2e>a<alf as 1.1f>.dat\<close>: the letter \<open>a\<close> follows the
  Reynolds field directly, with no underscore between them.
\<close>

theorem SaveNameSurfCp_format:
  "fmt_2e fm (Re x) = Inr r \<Longrightarrow> fmt_1f fm alf = Inr a \<Longrightarrow>
   SaveNameSurfCp fm x alf
     = Inr (savepath x @ ''/'' @ name x @ ''_surfCP_Re'' @ r @ ''a'' @ a @ ''.dat'')"
  by (simp add: SaveNameSurfCp_def)

theorem SaveNameSurfCp_format_witness:
  "fmt_2e int_num (Re naca0012) = Inr ''0.00e+00'' \<and> fmt_1f int_num 10 = Inr ''10.0''
   \<and> SaveNameSurfCp int_num naca0012 10
       = Inr ''Data/naca0012/naca0012_surfCP_Re0.00e+00a10.0.dat''"
proof -
  have r: "fmt_2e int_num (Re naca0012) = Inr ''0.00e+00''"
    by (simp add: naca0012_fields int_num_0)
  have a: "fmt_1f int_num 10 = Inr ''10.0''"
    by (simp add: int_num_10)
  show ?thesis
    using r a SaveNameSurfCp_format [OF r a] by (simp add: naca0012_fields)
qed

text \<open>The path with the underscore, as the claim words it, is not the path the code builds.\<close>

theorem SaveNameSurfCp_underscore_counterexample:
  "SaveNameSurfCp int_num naca0012 0 \<noteq> SurfacePressurePath_spec int_num naca0012 0"
  by (simp add: SaveNameSurfCp_def SurfacePressurePath_spec_def naca0012_fields int_num_0)

text \<open>On an empty list \<open>alfs[0]\<close> raises.\<close>

lemma SaveNamePolar_empty: "SaveNamePolar fm x (Seq []) = Inl IndexError"
  by (simp add: SaveNamePolar_def alfrange_def)

lemma alfrange_single:
  "alfrange fm [a] = (case fmt_2f fm a of Inl err \<Rightarrow> Inl err | Inr s \<Rightarrow> Inr (''a'' @ s))"
  by (simp add: alfrange_def)

lemma alfrange_many:
  "1 < length l \<Longrightarrow> fmt_1f fm (hd l) = Inr lo \<Longrightarrow> fmt_1f fm (last l) = Inr hi \<Longrightarrow>
   alfrange fm l = Inr (''a'' @ lo @ ''-'' @ hi)"
  by (cases l) (simp_all add: alfrange_def)

lemma alfrange_ends: "1 < length l \<Longrightarrow> alfrange fm l = alfrange fm [hd l, last l]"
  by (cases l) (simp_all add: alfrange_def split: sum.splits)

text \<open>
  C4. SaveNamePolar reads only the first and the last angle, in the order given. A list
  of more than one angle gives the same path as the two-element list of its first and
  last element, and that path has the range form \<open>a<first as 1.1f>-<last as 1.1f>\<close>. A
  list of exactly one angle (or a bare number) gives the single-value form
  \<open>a<angle as 1.2f>\<close>, with two decimals.
\<close>

theorem SaveNamePolar_first_last:
  assumes "fmt_2e fm (Re x) = Inr r"
  shows "(1 < length l \<longrightarrow> SaveNamePolar fm x (Seq l) = SaveNamePolar fm x (Seq [hd l, last l]))
       \<and> (1 < length l \<and> fmt_1f fm (hd l) = Inr lo \<and> fmt_1f fm (last l) = Inr hi \<longrightarrow>
            SaveNamePolar fm x (Seq l)
              = Inr (savepath x @ ''/'' @ name x @ ''_polar_Re'' @ r
                     @ ''a'' @ lo @ ''-'' @ hi @ ''.dat''))
       \<and> (fmt_2f fm a = Inr s \<longrightarrow>
            SaveNamePolar fm x (Seq [a])
              = Inr (savepath x @ ''/'' @ name x @ ''_polar_Re'' @ r @ ''a'' @ s @ ''.dat''))
       \<and> SaveNamePolar fm x (Scalar a) = SaveNamePolar fm x (Seq [a])"
proof -
  have "SaveNamePolar fm x (Seq l) = SaveNamePolar fm x (Seq [hd l, last l])" if "1 < length l"
    using alfrange_ends [OF that, of fm] by (simp add: SaveNamePolar_def)
  then show ?thesis
    using assms by (simp add: SaveNamePolar_def alfrange_single alfrange_many)
qed

theorem SaveNamePolar_first_last_witness:
  "fmt_2e int_num (Re naca0012) = Inr ''0.00e+00''
   \<and> 1 < length [0, 5, 10 :: int]
   \<and> fmt_1f int_num (hd [0, 5, 10]) = Inr ''0.0'' \<and> fmt_1f int_num (last [0, 5, 10]) = Inr ''10.0''
   \<and> fmt_2f int_num 10 = Inr ''10.00''
   \<and> SaveNamePolar int_num naca0012 (Seq [0, 5, 10])
       = Inr ''Data/naca0012/naca0012_polar_Re0.00e+00a0.0-10.0.dat''
   \<and> SaveNamePolar int_num naca0012 (Seq [10])
       = Inr ''Data/naca0012/naca0012_polar_Re0.00e+00a10.00.dat''"
proof -
  have r: "fmt_2e int_num (Re naca0012) = Inr ''0.00e+00''"
    by (simp add: naca0012_fields int_num_0)
  show ?thesis
    using r SaveNamePolar_first_last [OF r, of "[0, 5, 10]" "''0.0''" "''10.0''" 10 "''10.00''"]
    by (auto simp add: naca0012_fields int_num_0 int_num_10)
qed

section \<open>The polar\<close>

lemma Polar_setup_overwrite:
  assumes "SaveNamePolar fm x (Seq (as_list arg)) = Inr p" and "isfile e p"
  shows "Polar_setup fm arg True (x, e)
           = Inr (p, EnterOperMenu fm (x\<lparr>alfs := Some (as_list arg)\<rparr>), os_remove p e)"
  using assms by (simp add: Polar_setup_ok)

text \<open>
  C7. Polar called with \<open>overwrite=True\<close> while the resolved polar file exists: the part
  of Polar that ends just before \<open>self.AddInput('pacc')\<close> returns an environment without
  that file; the rest of Polar starts from that state, its first three commands being
  \<open>pacc\<close>, the file name and the empty line; and the file is still absent when Polar
  returns.
\<close>

theorem Polar_removes_before_pacc:
  assumes "SaveNamePolar fm x (Seq (as_list arg)) = Inr p" and "isfile e p"
  shows "Polar_setup fm arg True (x, e)
           = Inr (p, EnterOperMenu fm (x\<lparr>alfs := Some (as_list arg)\<rparr>), os_remove p e)
       \<and> \<not> isfile (os_remove p e) p
       \<and> Polar fm arg SaveCP True (x, e)
           = Polar_accumulate fm (as_list arg) SaveCP p
               (EnterOperMenu fm (x\<lparr>alfs := Some (as_list arg)\<rparr>), os_remove p e)
       \<and> prefix (input (EnterOperMenu fm (x\<lparr>alfs := Some (as_list arg)\<rparr>))
                 @ script [''pacc'', p, []])
                (input (fst (snd (Polar fm arg SaveCP True (x, e)))))
       \<and> \<not> isfile (snd (snd (Polar fm arg SaveCP True (x, e)))) p"
proof -
  note s = Polar_setup_overwrite [OF assms]
  have p: "Polar fm arg SaveCP True (x, e)
           = Polar_accumulate fm (as_list arg) SaveCP p
               (EnterOperMenu fm (x\<lparr>alfs := Some (as_list arg)\<rparr>), os_remove p e)"
    by (simp add: Polar_def s)
  show ?thesis
    unfolding p using s by (simp add: isfile_os_remove Polar_accumulate_env Polar_accumulate_starts)
qed

theorem Polar_removes_before_pacc_witness:
  "SaveNamePolar int_num naca0012 (Seq (as_list (Seq [0, 10])))
     = Inr ''Data/naca0012/naca0012_polar_Re0.00e+00a0.0-10.0.dat''
   \<and> isfile (with_file ''Data/naca0012/naca0012_polar_Re0.00e+00a0.0-10.0.dat'' [''old polar''] mac_host)
        ''Data/naca0012/naca0012_polar_Re0.00e+00a0.0-10.0.dat''
   \<and> \<not> isfile (snd (snd (Polar int_num (Seq [0, 10]) True True
          (naca0012,
           with_file ''Data/naca0012/naca0012_polar_Re0.00e+00a0.0-10.0.dat'' [''old polar''] mac_host))))
        ''Data/naca0012/naca0012_polar_Re0.00e+00a0.0-10.0.dat''"
proof -
  let ?p = "''Data/naca0012/naca0012_polar_Re0.00e+00a0.0-10.0.dat''"
  have n: "SaveNamePolar int_num naca0012 (Seq (as_list (Seq [0, 10]))) = Inr ?p"
    by (simp add: SaveNamePolar_def alfrange_def int_num_0 int_num_10 naca0012_fields)
  have f: "isfile (with_file ?p [''old polar''] mac_host) ?p"
    by (rule isfile_with_file)
  show ?thesis
    using n f Polar_removes_before_pacc [OF n f, of True] by blast
qed

section \<open>Configuration errors\<close>





section \<open>A whole session\<close>

lemma polar_calls:
  fixes x :: "int xfoil"
  assumes x: "Re x = 0" "Iter x = 100" "savepath x = ''Data/naca0012''" "name x = ''naca0012''"
    and nf: "\<not> isfile e ''Data/naca0012/naca0012.dat''"
  shows "fst (calls int_num
            [Call_SaveGeom True, Call_EnterOperMenu, Call_Polar (Seq [0, 10]) True True, Call_Quit]
            (x, e)) = None
       \<and> input (fst (snd (calls int_num
            [Call_SaveGeom True, Call_EnterOperMenu, Call_Polar (Seq [0, 10]) True True, Call_Quit]
            (x, e))))
         = input x @ script [''save Data/naca0012/naca0012.dat'',
                   ''oper'', ''iter 100'', ''oper'', ''iter 100'', ''pacc'',
                   ''Data/naca0012/naca0012_polar_Re0.00e+00a0.0-10.0.dat'', [],
                   ''alfa 0'', ''cpwr Data/naca0012/naca0012_surfCP_Re0.00e+00a0.0.dat'',
                   ''alfa 10'', ''cpwr Data/naca0012/naca0012_surfCP_Re0.00e+00a10.0.dat'',
                   ''pacc'', [], [], [], [], ''quit'']"
proof -
  let ?p = "''Data/naca0012/naca0012_polar_Re0.00e+00a0.0-10.0.dat''"
  have sg: "SaveGeom True (x, e)
              = (x\<lparr>input := input x @ script [''save Data/naca0012/naca0012.dat'']\<rparr>, e)"
    using nf by (simp add: SaveGeom_cases SaveNameGeom_def AddInput_script x)
  have ea: "each_alfa int_num True [0, 10] y
      = (None, y\<lparr>input := input y
            @ script [''alfa 0'', ''cpwr Data/naca0012/naca0012_surfCP_Re0.00e+00a0.0.dat'',
                      ''alfa 10'', ''cpwr Data/naca0012/naca0012_surfCP_Re0.00e+00a10.0.dat'']\<rparr>)"
    if "Re y = 0" "savepath y = ''Data/naca0012''" "name y = ''naca0012''" for y :: "int xfoil"
    using that
    by (simp add: SingleAlfa_script SaveNameSurfCp_def int_num_0 int_num_10 script_join)
  have po: "Polar int_num (Seq [0, 10]) True True (y, e)
      = (None, y\<lparr>alfs := Some [0, 10],
                  input := input y @ script [''oper'', ''iter 100'', ''pacc'', ?p, [],
            ''alfa 0'', ''cpwr Data/naca0012/naca0012_surfCP_Re0.00e+00a0.0.dat'',
            ''alfa 10'', ''cpwr Data/naca0012/naca0012_surfCP_Re0.00e+00a10.0.dat'', ''pacc'']\<rparr>,
         if isfile e ?p then os_remove ?p e else e)"
    if "Re y = 0" "Iter y = 100" "savepath y = ''Data/naca0012''" "name y = ''naca0012''"
    for y :: "int xfoil"
  proof -
    have "SaveNamePolar int_num y (Seq [0, 10]) = Inr ?p"
      by (simp add: SaveNamePolar_def alfrange_def int_num_0 int_num_10 that)
    then show ?thesis
      using that
      by (simp add: Polar_def Polar_setup_ok Polar_accumulate_def Let_def
          EnterOperMenu_script int_num_0 int_num_100 AddInput_script ea script_join
          del: each_alfa.simps)
  qed
  show ?thesis
    by (simp add: sg EnterOperMenu_script int_num_0 int_num_100 x po Quit_script script_join)
qed

lemma polar_session:
  assumes "find_xfoil None e = Inr (path, e1)"
    and "\<not> isfile e ''Data/naca0012/naca0012.dat''"
  shows "fst (after_calls int_num
                [Call_SaveGeom True, Call_EnterOperMenu, Call_Polar (Seq [0, 10]) True True,
                 Call_Quit]
                (Xfoil_init rs int_num ''0012'' True 0 100 None True e)) = None
       \<and> fst (snd (after_calls int_num
                [Call_SaveGeom True, Call_EnterOperMenu, Call_Polar (Seq [0, 10]) True True,
                 Call_Quit]
                (Xfoil_init rs int_num ''0012'' True 0 100 None True e)))
         = script [''plop'', ''g f'', [], ''naca 0012'', ''save Data/naca0012/naca0012.dat'',
                   ''oper'', ''iter 100'', ''oper'', ''iter 100'', ''pacc'',
                   ''Data/naca0012/naca0012_polar_Re0.00e+00a0.0-10.0.dat'', [],
                   ''alfa 0'', ''cpwr Data/naca0012/naca0012_surfCP_Re0.00e+00a0.0.dat'',
                   ''alfa 10'', ''cpwr Data/naca0012/naca0012_surfCP_Re0.00e+00a10.0.dat'',
                   ''pacc'', [], [], [], [], ''quit'']"
proof -
  let ?e0 = "MakeOutputDir ''Data/naca0012'' e1"
  let ?x0 = "\<lparr> win = os_nt e, xfoilpath = path, Re = 0::int, Iter = 100, naca = True,
            name = ''naca0012'', savepath = ''Data/naca0012'',
            input = script [''plop'', ''g f'', [], ''naca 0012''],
            foil = ''0012'', alfs = None, xf = None \<rparr>"
  let ?cs = "[Call_SaveGeom True, Call_EnterOperMenu, Call_Polar (Seq [0, 10]) True True,
              Call_Quit]"
  have init: "Xfoil_init rs int_num ''0012'' True 0 100 None True e = Inr (?x0, ?e0)"
    by (simp add: Xfoil_init_naca [OF assms(1)])
  have nf: "\<not> isfile ?e0 ''Data/naca0012/naca0012.dat''"
    using assms(2) by (simp add: isfile_def MakeOutputDir_files find_xfoil_files [OF assms(1)])
  have c: "fst (calls int_num ?cs (?x0, ?e0)) = None
         \<and> input (fst (snd (calls int_num ?cs (?x0, ?e0))))
           = input ?x0 @ script [''save Data/naca0012/naca0012.dat'',
                   ''oper'', ''iter 100'', ''oper'', ''iter 100'', ''pacc'',
                   ''Data/naca0012/naca0012_polar_Re0.00e+00a0.0-10.0.dat'', [],
                   ''alfa 0'', ''cpwr Data/naca0012/naca0012_surfCP_Re0.00e+00a0.0.dat'',
                   ''alfa 10'', ''cpwr Data/naca0012/naca0012_surfCP_Re0.00e+00a10.0.dat'',
                   ''pacc'', [], [], [], [], ''quit'']"
    by (rule polar_calls [OF _ _ _ _ nf]) simp_all
  obtain r x' e' where k: "calls int_num ?cs (?x0, ?e0) = (r, x', e')"
    by (cases "calls int_num ?cs (?x0, ?e0)")
  show ?thesis
    using c by (simp add: init after_calls_def k script_join del: calls.simps)
qed

text \<open>
  C1, as the code has it. The call sequence of the claim leaves the command list with
  \<open>oper\<close> and \<open>iter 100\<close> twice: once from EnterOperMenu and once more from Polar, which
  calls EnterOperMenu whether or not the menu was entered before. The rest is as the
  claim lists it. This holds on every host where the executable is found and the
  geometry file does not exist yet.
\<close>

theorem polar_session_script:
  assumes "find_xfoil None e = Inr (path, e1)"
    and "\<not> isfile e ''Data/naca0012/naca0012.dat''"
  shows "fst (after_calls int_num
                [Call_SaveGeom True, Call_EnterOperMenu, Call_Polar (Seq [0, 10]) True True,
                 Call_Quit]
                (Xfoil_init rs int_num ''0012'' True 0 100 None True e)) = None
       \<and> fst (snd (after_calls int_num
                [Call_SaveGeom True, Call_EnterOperMenu, Call_Polar (Seq [0, 10]) True True,
                 Call_Quit]
                (Xfoil_init rs int_num ''0012'' True 0 100 None True e)))
         = script [''plop'', ''g f'', [], ''naca 0012'', ''save Data/naca0012/naca0012.dat'',
                   ''oper'', ''iter 100'', ''oper'', ''iter 100'', ''pacc'',
                   ''Data/naca0012/naca0012_polar_Re0.00e+00a0.0-10.0.dat'', [],
                   ''alfa 0'', ''cpwr Data/naca0012/naca0012_surfCP_Re0.00e+00a0.0.dat'',
                   ''alfa 10'', ''cpwr Data/naca0012/naca0012_surfCP_Re0.00e+00a10.0.dat'',
                   ''pacc'', [], [], [], [], ''quit'']"
  using assms by (rule polar_session)

lemma mac_host_no_geometry: "\<not> isfile mac_host ''Data/naca0012/naca0012.dat''"
  by (simp add: isfile_def mac_host_def mac_xfoil_def)

theorem polar_session_script_witness:
  "find_xfoil None mac_host = Inr (mac_xfoil, mac_host)
   \<and> \<not> isfile mac_host ''Data/naca0012/naca0012.dat''
   \<and> fst (after_calls int_num
            [Call_SaveGeom True, Call_EnterOperMenu, Call_Polar (Seq [0, 10]) True True,
             Call_Quit]
            (Xfoil_init re_search int_num ''0012'' True 0 100 None True mac_host)) = None
   \<and> fst (snd (after_calls int_num
            [Call_SaveGeom True, Call_EnterOperMenu, Call_Polar (Seq [0, 10]) True True,
             Call_Quit]
            (Xfoil_init re_search int_num ''0012'' True 0 100 None True mac_host)))
     = script [''plop'', ''g f'', [], ''naca 0012'', ''save Data/naca0012/naca0012.dat'',
               ''oper'', ''iter 100'', ''oper'', ''iter 100'', ''pacc'',
               ''Data/naca0012/naca0012_polar_Re0.00e+00a0.0-10.0.dat'', [],
               ''alfa 0'', ''cpwr Data/naca0012/naca0012_surfCP_Re0.00e+00a0.0.dat'',
               ''alfa 10'', ''cpwr Data/naca0012/naca0012_surfCP_Re0.00e+00a10.0.dat'',
               ''pacc'', [], [], [], [], ''quit'']"
  using find_xfoil_mac mac_host_no_geometry
    polar_session_script [OF find_xfoil_mac mac_host_no_geometry]
  by blast

text \<open>
  The command list of the claim, with \<open>oper\<close> and \<open>iter 100\<close> once each, is not what the
  call sequence leaves.
\<close>

theorem polar_session_oper_once_counterexample:
  "fst (snd (after_calls int_num
            [Call_SaveGeom True, Call_EnterOperMenu, Call_Polar (Seq [0, 10]) True True,
             Call_Quit]
            (Xfoil_init re_search int_num ''0012'' True 0 100 None True mac_host)))
   \<noteq> script [''plop'', ''g f'', [], ''naca 0012'', ''save Data/naca0012/naca0012.dat'',
              ''oper'', ''iter 100'', ''pacc'',
              ''Data/naca0012/naca0012_polar_Re0.00e+00a0.0-10.0.dat'', [],
              ''alfa 0'', ''cpwr Data/naca0012/naca0012_surfCP_Re0.00e+00a0.0.dat'',
              ''alfa 10'', ''cpwr Data/naca0012/naca0012_surfCP_Re0.00e+00a10.0.dat'',
              ''pacc'', [], [], [], [], ''quit'']"
  using polar_session [OF find_xfoil_mac mac_host_no_geometry]
  by (simp add: script_def)

section \<open>The airfoil name of a geometry file\<close>

lemma str_split_nonempty: "str_split c s \<noteq> []"
  by (induction s) (auto split: list.splits)

lemma str_split_join:
  "concat (map (\<lambda>p. p @ [c]) (butlast (str_split c s))) @ last (str_split c s) = s"
proof (induction s)
  case Nil
  then show ?case by simp
next
  case (Cons x xs)
  obtain p ps where ps: "str_split c xs = p # ps"
    using str_split_nonempty [of c xs] by (cases "str_split c xs") auto
  show ?case
  proof (cases "x = c")
    case True
    with Cons ps show ?thesis by simp
  next
    case False
    with Cons ps show ?thesis by (cases ps) auto
  qed
qed

lemma GetParentDir_split:
  "GetParentDir s @ last (str_split (CHR ''/'') s) = s"
  using str_split_join [of "CHR ''/''" s] by (simp add: GetParentDir_def)

text \<open>
  A pattern of plain characters and dots, read up to the closing parenthesis, is one
  alternative of its own length.
\<close>

lemma regex_alts_plain:
  "list_all (\<lambda>c. \<not> metachar c \<or> c = CHR ''.'') p \<Longrightarrow>
   \<exists>alt. regex_alts q False (p @ CHR '')'' # r) = Inr ([alt], CHR '')'' # r)
         \<and> length alt = length p"
proof (induction p)
  case Nil
  then show ?case by simp
next
  case (Cons c p)
  then obtain alt where alt: "regex_alts q False (p @ CHR '')'' # r) = Inr ([alt], CHR '')'' # r)"
    and len: "length alt = length p"
    by auto
  from Cons.prems have c: "\<not> metachar c \<or> c = CHR ''.''" by simp
  show ?case
  proof (cases "c = CHR ''.''")
    case True
    with alt len show ?thesis by simp
  next
    case False
    with c have "\<not> metachar c" by simp
    with alt len show ?thesis by (auto simp add: metachar_def)
  qed
qed

lemma lazy_dots_no_dot:
  "CHR ''.'' \<notin> set s \<Longrightarrow> lazy_dots [[Lit (CHR ''.'')]] s = None"
  by (induction s) (auto simp add: ahead_def)

lemma search_between_None:
  assumes "\<And>pre' rest'. pre' @ rest' = pre @ rest \<Longrightarrow> length pre \<le> length pre' \<Longrightarrow>
             behind B pre' \<Longrightarrow> lazy_dots A rest' = None"
  shows "search_between B A pre rest = None"
  using assms
proof (induction rest arbitrary: pre)
  case Nil
  have "lazy_dots A [] = None" if "behind B pre"
    using Nil [of pre "[]"] that by simp
  then show ?case by (cases "behind B pre") simp_all
next
  case (Cons c cs)
  have here: "(if behind B pre then lazy_dots A (c # cs) else None) = None"
    using Cons.prems [of pre "c # cs"] by simp
  have "search_between B A (pre @ [c]) cs = None"
  proof (rule Cons.IH)
    fix pre' rest'
    assume "pre' @ rest' = (pre @ [c]) @ cs" "length (pre @ [c]) \<le> length pre'" "behind B pre'"
    then show "lazy_dots A rest' = None"
      using Cons.prems [of pre' rest'] by simp
  qed
  with here show ?case by simp
qed

lemma FindBetween_No_Match:
  assumes plain: "list_all (\<lambda>c. \<not> metachar c \<or> c = CHR ''.'') parent"
    and nodot: "CHR ''.'' \<notin> set base"
  shows "FindBetween re_search (parent @ base) parent [CHR 0x5C, CHR ''.''] = Inr ''No Match''"
proof -
  let ?r = "''(?P<value>.*?)(?='' @ [CHR 0x5C, CHR ''.''] @ '')''"
  from regex_alts_plain [OF plain, of ReError ?r] obtain alt
    where alt: "regex_alts ReError False (parent @ CHR '')'' # ?r) = Inr ([alt], CHR '')'' # ?r)"
      and len: "length alt = length parent" by blast
  have c: "compile_between (''(?<='' @ parent @ '')(?P<value>.*?)(?='' @ [CHR 0x5C, CHR ''.''] @ '')'')
             = Inr ([alt], [[Lit (CHR ''.'')]])"
    using alt by (simp add: compile_between_def metachar_def fixed_width_def)
  have "search_between [alt] [[Lit (CHR ''.'')]] [] (parent @ base) = None"
  proof (rule search_between_None)
    fix pre' rest'
    assume eq: "pre' @ rest' = [] @ parent @ base" and b: "behind [alt] pre'"
    from b len have "length parent \<le> length pre'" by (simp add: behind_def)
    have "rest' = drop (length pre') (pre' @ rest')" by simp
    also have "\<dots> = drop (length pre') (parent @ base)" using eq by simp
    also have "\<dots> = drop (length pre' - length parent) base"
      using \<open>length parent \<le> length pre'\<close> by simp
    finally have "rest' = drop (length pre' - length parent) base" .
    then have "set rest' \<subseteq> set base" by (simp add: set_drop_subset)
    with nodot have "CHR ''.'' \<notin> set rest'" by blast
    then show "lazy_dots [[Lit (CHR ''.'')]] rest' = None" by (rule lazy_dots_no_dot)
  qed
  with c show ?thesis
    by (simp add: FindBetween_def re_search_def)
qed

text \<open>
  Where the parent directory holds no metacharacter but the dot, a file name without a
  dot gives the name \<open>No Match\<close>.
\<close>

lemma airfoil_name_No_Match:
  assumes "list_all (\<lambda>c. \<not> metachar c \<or> c = CHR ''.'') (GetParentDir f)"
    and "CHR ''.'' \<notin> set (last (str_split (CHR ''/'') f))"
  shows "airfoil_name re_search f False = Inr ''No Match''"
  using FindBetween_No_Match [OF assms] by (simp add: airfoil_name_def GetParentDir_split)

text \<open>
  C10. The claim: a geometry path with no \<open>.\<close> after its parent directory gets the name
  \<open>No Match\<close>. The constructor pastes the parent directory into the regular expression
  unescaped; for the path \<open>ab|./d\<close>, whose file name \<open>d\<close> has no extension, the parent
  \<open>ab|./\<close> is read as the alternation of \<open>ab\<close> and \<open>./\<close>, the search matches after \<open>ab\<close>,
  and the object gets the name \<open>|\<close> and the save directory \<open>Data/|\<close>.
\<close>

theorem Xfoil_init_name_from_regex:
  "Xfoil_init re_search int_num ''ab|./d'' False 0 100 None True
     (with_file ''ab|./d'' [''airfoil'', ''1.0 0.0''] mac_host)
   = Inr (\<lparr> win = False, xfoilpath = mac_xfoil, Re = 0, Iter = 100, naca = False,
            name = ''|'', savepath = ''Data/|'',
            input = script [''plop'', ''g f'', [], ''load ab|./d''],
            foil = ''ab|./d'', alfs = None, xf = None \<rparr>,
          MakeOutputDir ''Data/|'' (with_file ''ab|./d'' [''airfoil'', ''1.0 0.0''] mac_host))"
proof -
  let ?w = "with_file ''ab|./d'' [''airfoil'', ''1.0 0.0''] mac_host"
  have fw: "find_xfoil None ?w = Inr (mac_xfoil, ?w)"
    by (rule find_xfoil_with_file) (simp_all add: mac_xfoil_def)
  have o: "files ?w ''ab|./d'' = Some [''airfoil'', ''1.0 0.0'']"
    by (simp add: with_file_def)
  show ?thesis
    by (simp add: Xfoil_init_file [OF fw airfoil_name_bar] o mac_host_not_nt)
qed

end
